theory Spec2Isabelle
  imports Complex_Main "HOL-Library.Char_ord" "HOL-Library.List_Lexorder"
begin

section \<open>Numbers of the data frame\<close>

text \<open>
  The numeric columns of the frame are float64 columns. A value is a finite number, one
  of the two infinities, or NaN, which pandas also uses as the marker of a missing
  entry. Finite values are modelled as reals: rounding and overflow of the finite
  arithmetic are not modelled, and \<open>Fin 0\<close> stands for the positive zero (a negative
  zero is not distinguished). Everything that involves a zero divisor, an infinity or
  NaN follows IEEE 754, which is what pandas computes on a float64 (and on an int64)
  column: no exception is raised by a division.
\<close>

datatype f64 = Fin real | PInf | NInf | NaN

fun isna :: "f64 \<Rightarrow> bool" where
  "isna NaN = True"
| "isna _ = False"

fun is_finite :: "f64 \<Rightarrow> bool" where
  "is_finite (Fin _) = True"
| "is_finite _ = False"

text \<open>\<open>a <= b\<close> and \<open>a >= b\<close> on floats: every comparison with NaN is false.\<close>

fun f64_le :: "f64 \<Rightarrow> f64 \<Rightarrow> bool" where
  "f64_le NaN _ = False"
| "f64_le _ NaN = False"
| "f64_le NInf _ = True"
| "f64_le _ PInf = True"
| "f64_le (Fin x) (Fin y) = (x \<le> y)"
| "f64_le PInf _ = False"
| "f64_le _ NInf = False"

definition f64_ge :: "f64 \<Rightarrow> f64 \<Rightarrow> bool" where
  "f64_ge a b = f64_le b a"

text \<open>\<open>a / b\<close>: a zero divisor gives an infinity of the sign of \<open>a\<close>, or NaN for 0 / 0.\<close>

fun f64_div :: "f64 \<Rightarrow> f64 \<Rightarrow> f64" where
  "f64_div NaN _ = NaN"
| "f64_div _ NaN = NaN"
| "f64_div (Fin x) (Fin y) =
     (if y \<noteq> 0 then Fin (x / y)
      else if 0 < x then PInf else if x < 0 then NInf else NaN)"
| "f64_div (Fin x) PInf = Fin 0"
| "f64_div (Fin x) NInf = Fin 0"
| "f64_div PInf (Fin y) = (if 0 \<le> y then PInf else NInf)"
| "f64_div NInf (Fin y) = (if 0 \<le> y then NInf else PInf)"
| "f64_div PInf PInf = NaN"
| "f64_div PInf NInf = NaN"
| "f64_div NInf PInf = NaN"
| "f64_div NInf NInf = NaN"

text \<open>\<open>a * b\<close>: an infinity times zero is NaN.\<close>

fun f64_mul :: "f64 \<Rightarrow> f64 \<Rightarrow> f64" where
  "f64_mul NaN _ = NaN"
| "f64_mul _ NaN = NaN"
| "f64_mul (Fin x) (Fin y) = Fin (x * y)"
| "f64_mul (Fin x) PInf = (if 0 < x then PInf else if x < 0 then NInf else NaN)"
| "f64_mul (Fin x) NInf = (if 0 < x then NInf else if x < 0 then PInf else NaN)"
| "f64_mul PInf (Fin y) = (if 0 < y then PInf else if y < 0 then NInf else NaN)"
| "f64_mul NInf (Fin y) = (if 0 < y then NInf else if y < 0 then PInf else NaN)"
| "f64_mul PInf PInf = PInf"
| "f64_mul PInf NInf = NInf"
| "f64_mul NInf PInf = NInf"
| "f64_mul NInf NInf = PInf"

text \<open>\<open>a + b\<close>: the sum of the two opposite infinities is NaN.\<close>

fun f64_add :: "f64 \<Rightarrow> f64 \<Rightarrow> f64" where
  "f64_add NaN _ = NaN"
| "f64_add _ NaN = NaN"
| "f64_add (Fin x) (Fin y) = Fin (x + y)"
| "f64_add (Fin x) PInf = PInf"
| "f64_add (Fin x) NInf = NInf"
| "f64_add PInf (Fin y) = PInf"
| "f64_add NInf (Fin y) = NInf"
| "f64_add PInf PInf = PInf"
| "f64_add PInf NInf = NaN"
| "f64_add NInf PInf = NaN"
| "f64_add NInf NInf = NInf"

section \<open>The data frame\<close>

text \<open>
  A row of the cleaned frame, with the eight columns \<open>data_preparation\<close> retains under
  their new names. The frame is the list of its rows, in row order. The columns have
  the types of the data set the program is written for: \<open>Country\<close> is a text column,
  where \<open>None\<close> is a missing entry, and the seven others are numeric, where NaN is.
\<close>

record observation =
  Country :: "string option"
  Year :: f64
  Population :: f64
  GDP :: f64
  Per_capita_GNI :: f64
  Agriculture :: f64
  Manufacturing :: f64
  Transport_Comm :: f64

text \<open>A row of the frame after \<open>feature_engineering\<close>: the eight columns and five more.\<close>

record enriched = observation +
  Income_Group :: string
  GDP_per_capita :: f64
  Agriculture_Share :: f64
  Manufacturing_Share :: f64
  Transport_Comm_Share :: f64

section \<open>Feature engineering\<close>

text \<open>
  \<open>classify_income_group\<close>, the closure of \<open>feature_engineering\<close>. Applied to NaN all
  three comparisons are false and the last branch is taken.
\<close>

definition classify_income_group :: "f64 \<Rightarrow> string" where
  "classify_income_group gni =
     (if f64_le gni (Fin 1145) then ''Low income''
      else if f64_le gni (Fin 4515) then ''Lower middle income''
      else if f64_le gni (Fin 14005) then ''Upper middle income''
      else ''High income'')"

text \<open>
  The five column assignments of \<open>feature_engineering\<close> are element-wise over the rows
  (the operands of each division share the frame's index), so the value they give a row
  is computed from that row; \<open>enrich_row\<close> is what they store in one row.
\<close>

definition enrich_row :: "observation \<Rightarrow> enriched" where
  "enrich_row r =
     observation.extend r
       (enriched.fields
          (classify_income_group (Per_capita_GNI r))
          (f64_div (GDP r) (Population r))
          (f64_mul (f64_div (Agriculture r) (GDP r)) (Fin 100))
          (f64_mul (f64_div (Manufacturing r) (GDP r)) (Fin 100))
          (f64_mul (f64_div (Transport_Comm r) (GDP r)) (Fin 100)))"

definition feature_engineering :: "observation list \<Rightarrow> enriched list" where
  "feature_engineering df = map enrich_row df"

section \<open>Effects and failures\<close>

text \<open>
  What the program does to its surroundings: the lines it writes to the standard output
  (one entry for each \<open>print\<close> and for each prompt of \<open>input\<close>) and the files it
  writes. A function with effects takes the world and returns the new one. An uncaught
  exception ends the program; the model then keeps the exception alone.
\<close>

record world =
  stdout :: "string list"
  files :: "string \<rightharpoonup> string"

datatype error = KeyError "string list" | EOFError | LibraryError string

definition print :: "string \<Rightarrow> world \<Rightarrow> world" where
  "print s w = w\<lparr>stdout := stdout w @ [s]\<rparr>"

definition write_file :: "string \<Rightarrow> string \<Rightarrow> world \<Rightarrow> world" where
  "write_file name text w = w\<lparr>files := (files w)(name \<mapsto> text)\<rparr>"

section \<open>Loading and cleaning\<close>

text \<open>
  What \<open>read_csv\<close> returns for a file: the column labels of the header as they are in
  the file, and the rows, each holding its entries under the eight columns the program
  reads (the other columns are dropped by the selection and are not modelled; the
  labels are taken to stay pairwise different when stripped). The file system
  gives the table of a path, or nothing when the path does not resolve.
\<close>

record raw_frame =
  columns :: "string list"
  rows :: "observation list"

type_synonym file_system = "string \<rightharpoonup> raw_frame"

text \<open>\<open>str.strip\<close>: the white space of Python among the characters of Latin-1.\<close>

definition is_space :: "char \<Rightarrow> bool" where
  "is_space c = ((of_char c :: nat) \<in> {9, 10, 11, 12, 13, 28, 29, 30, 31, 32, 133, 160})"

definition strip :: "string \<Rightarrow> string" where
  "strip s = rev (dropWhile is_space (rev (dropWhile is_space s)))"

definition columns_to_keep :: "string list" where
  "columns_to_keep =
     [''Country'', ''Year'', ''Population'', ''Gross Domestic Product (GDP)'',
      ''Per capita GNI'', ''Agriculture, hunting, forestry, fishing (ISIC A-B)'',
      ''Manufacturing (ISIC D)'', ''Transport, storage and communication (ISIC I)'']"

text \<open>A row has a missing value when one of its eight entries is missing.\<close>

definition has_missing :: "observation \<Rightarrow> bool" where
  "has_missing r =
     (Country r = None \<or> isna (Year r) \<or> isna (Population r) \<or> isna (GDP r)
      \<or> isna (Per_capita_GNI r) \<or> isna (Agriculture r) \<or> isna (Manufacturing r)
      \<or> isna (Transport_Comm r))"

definition dropna :: "observation list \<Rightarrow> observation list" where
  "dropna df = filter (\<lambda>r. \<not> has_missing r) df"

definition not_found_message :: "string \<Rightarrow> string" where
  "not_found_message file_path =
     ''Error: The file '' @ [CHR 0x27] @ file_path @ [CHR 0x27]
     @ '' was not found. Please ensure it is in the same directory as the script.''"

text \<open>
  \<open>data_preparation\<close>: \<open>FileNotFoundError\<close> is caught, reported by a \<open>print\<close> and
  answered with \<open>None\<close>; selecting a column that the stripped header does not have
  raises \<open>KeyError\<close>.
\<close>

definition data_preparation ::
    "file_system \<Rightarrow> string \<Rightarrow> world \<Rightarrow> error + (observation list option \<times> world)" where
  "data_preparation fs file_path w =
     (case fs file_path of
        None \<Rightarrow> Inr (None, print (not_found_message file_path) w)
      | Some df \<Rightarrow>
          (let cols = map strip (columns df);
               absent = filter (\<lambda>c. c \<notin> set cols) columns_to_keep
           in if absent \<noteq> [] then Inl (KeyError absent)
              else Inr (Some (dropna (rows df)), w)))"

section \<open>Selecting comparable countries\<close>

text \<open>The mean of a group skips NaN; a group with nothing else has the mean NaN.\<close>

definition f64_sum :: "f64 list \<Rightarrow> f64" where
  "f64_sum xs = foldl f64_add (Fin 0) xs"

definition f64_mean :: "f64 list \<Rightarrow> f64" where
  "f64_mean xs =
     (let ys = filter (\<lambda>x. \<not> isna x) xs
      in if ys = [] then NaN else f64_div (f64_sum ys) (Fin (real (length ys))))"

text \<open>
  \<open>df.groupby('Country')['Population'].mean().reset_index()\<close>: one row for each country,
  the countries in ascending order (\<open>groupby\<close> sorts its keys); rows with a missing
  country belong to no group.
\<close>

definition avg_population :: "enriched list \<Rightarrow> (string \<times> f64) list" where
  "avg_population df =
     map (\<lambda>c. (c, f64_mean (map Population (filter (\<lambda>r. Country r = Some c) df))))
       (sort (remdups (List.map_filter Country df)))"

definition min_population :: f64 where
  "min_population = Fin 10000000"

definition max_population :: f64 where
  "max_population = Fin 50000000"

text \<open>\<open>drop_duplicates\<close> keeps the first of the rows that are equal, in row order.\<close>

fun drop_duplicates :: "'a list \<Rightarrow> 'a list" where
  "drop_duplicates [] = []"
| "drop_duplicates (x # xs) = x # drop_duplicates (filter (\<lambda>y. y \<noteq> x) xs)"

definition country_income_map :: "enriched list \<Rightarrow> (string option \<times> string) list" where
  "country_income_map df = drop_duplicates (map (\<lambda>r. (Country r, Income_Group r)) df)"

text \<open>
  \<open>pd.merge(left, right, on='Country', how='left')\<close>: the rows of the left frame in
  their order, each once for every row of the right frame with its country, those in
  the order of the right frame; a left row without a partner is kept with a missing
  income group.
\<close>

definition merge_left ::
    "(string \<times> f64) list \<Rightarrow> (string option \<times> string) list
       \<Rightarrow> (string \<times> f64 \<times> string option) list" where
  "merge_left left right =
     concat (map (\<lambda>(c, p).
        (case filter (\<lambda>(c', g). c' = Some c) right of
           [] \<Rightarrow> [(c, p, None)]
         | ms \<Rightarrow> map (\<lambda>(c', g). (c, p, Some g)) ms)) left)"

text \<open>
  The variable \<open>comparable_countries_df\<close> is assigned twice: the rows of
  \<open>avg_population\<close> inside the band first (\<open>population_filtered\<close> here), the merge
  of those with \<open>country_income_map\<close> second.
\<close>

definition population_filtered :: "enriched list \<Rightarrow> (string \<times> f64) list" where
  "population_filtered df =
     filter (\<lambda>(c, p). f64_ge p min_population \<and> f64_le p max_population) (avg_population df)"

definition comparable_countries_df :: "enriched list \<Rightarrow> (string \<times> f64 \<times> string option) list" where
  "comparable_countries_df df = merge_left (population_filtered df) (country_income_map df)"

text \<open>
  For the statements about the selection: the countries the population filter
  retains, the mean population of a country, the income-group labels a country
  carries in the rows of the frame, in row order, and the labels the merged frame
  holds for a country.
\<close>

definition retained :: "enriched list \<Rightarrow> string list" where
  "retained df = map fst (population_filtered df)"

definition mean_population :: "enriched list \<Rightarrow> string \<Rightarrow> f64" where
  "mean_population df c = f64_mean (map Population (filter (\<lambda>r. Country r = Some c) df))"

definition labels_in_rows :: "enriched list \<Rightarrow> string \<Rightarrow> string list" where
  "labels_in_rows df c = map Income_Group (filter (\<lambda>r. Country r = Some c) df)"

definition assigned_labels :: "enriched list \<Rightarrow> string \<Rightarrow> string option list" where
  "assigned_labels df c =
     map (\<lambda>(c', p, g). g) (filter (\<lambda>(c', p, g). c' = c) (comparable_countries_df df))"

text \<open>
  The keys of the grouped table, the test of the band, and the rows the merge makes of
  one row of the filtered table, as the proofs about the selection use them.
\<close>

definition country_keys :: "enriched list \<Rightarrow> string list" where
  "country_keys df = sort (remdups (List.map_filter Country df))"

definition in_band :: "f64 \<Rightarrow> bool" where
  "in_band p = (f64_ge p min_population \<and> f64_le p max_population)"

definition block :: "enriched list \<Rightarrow> string \<times> f64 \<Rightarrow> (string \<times> f64 \<times> string option) list" where
  "block df = (\<lambda>(c, p). map (\<lambda>g. (c, p, Some g)) (drop_duplicates (labels_in_rows df c)))"

text \<open>What one income group contributes to the selection.\<close>

definition group_part :: "enriched list \<Rightarrow> string \<Rightarrow> string list" where
  "group_part df g = take 3 (filter (\<lambda>c. g \<in> set (labels_in_rows df c)) (retained df))"

definition groups :: "string list" where
  "groups = [''High income'', ''Upper middle income'', ''Lower middle income'', ''Low income'']"

text \<open>The countries of one income group in the merged frame: \<open>unique\<close> keeps first occurrences.\<close>

definition group_countries :: "(string \<times> f64 \<times> string option) list \<Rightarrow> string \<Rightarrow> string list" where
  "group_countries m g = drop_duplicates (map fst (filter (\<lambda>(c, p, ig). ig = Some g) m))"

text \<open>The loop over \<open>groups\<close>, extending \<open>selected_countries\<close>.\<close>

definition selected_countries :: "enriched list \<Rightarrow> string list" where
  "selected_countries df =
     foldl (\<lambda>selected g.
        (let gc = group_countries (comparable_countries_df df) g
         in if 0 < length gc then selected @ take 3 gc else selected)) [] groups"

definition get_comparable_countries :: "enriched list \<Rightarrow> world \<Rightarrow> string list \<times> world" where
  "get_comparable_countries df w =
     (selected_countries df,
      print (CHR 0x0A # ''Selecting countries with comparable populations...'') w)"

section \<open>The regressions\<close>

text \<open>
  The estimators and the charts are computed by libraries that are not part of the
  program (statsmodels, linearmodels, seaborn and matplotlib). They are parameters of
  the model: a library function gets what the program passes to it and either raises
  or returns; the summary of a fitted model is the text the library prints for it.
  The constructor of a model and its \<open>fit\<close> are one call here.
\<close>

type_synonym panel_key = "string option \<times> f64"

record ('m, 'p) library =
  add_constant :: "f64 list list \<Rightarrow> error + f64 list list"
  OLS_fit :: "f64 list \<Rightarrow> f64 list list \<Rightarrow> error + 'm"
  OLS_summary :: "'m \<Rightarrow> string"
  PanelOLS_fit :: "(panel_key \<times> f64) list \<Rightarrow> (panel_key \<times> f64 list) list \<Rightarrow> bool \<Rightarrow> error + 'p"
  PanelOLS_str :: "'p \<Rightarrow> string"
  savefig :: "string \<Rightarrow> enriched list \<Rightarrow> string list \<Rightarrow> error + string"

text \<open>The response and the regressors of \<open>perform_regression\<close>, one entry for each row.\<close>

definition regression_y :: "enriched list \<Rightarrow> f64 list" where
  "regression_y df = map GDP_per_capita df"

definition regression_X :: "enriched list \<Rightarrow> f64 list list" where
  "regression_X df =
     map (\<lambda>r. [Agriculture_Share r, Manufacturing_Share r, Transport_Comm_Share r]) df"

definition perform_regression ::
    "('m, 'p) library \<Rightarrow> enriched list \<Rightarrow> world \<Rightarrow> error + ('m \<times> world)" where
  "perform_regression L df w =
     (let w1 = print (CHR 0x0A # ''--- OLS Regression Analysis Summary ---'') w;
          y = regression_y df;
          X = regression_X df
      in case add_constant L X of
           Inl e \<Rightarrow> Inl e
         | Inr X' \<Rightarrow>
             (case OLS_fit L y X' of
                Inl e \<Rightarrow> Inl e
              | Inr model \<Rightarrow>
                  (let w2 = print (OLS_summary L model) w1;
                       w3 = write_file ''regression_summary.txt'' (OLS_summary L model) w2
                   in Inr (model,
                        print (CHR 0x0A # ''Regression summary saved to ''
                               @ [CHR 0x27] @ ''regression_summary.txt'' @ [CHR 0x27] @ ''.'') w3))))"

text \<open>
  \<open>df.set_index(['Country', 'Year'])\<close> makes the pair of the two columns the index of
  each row; it is called without \<open>verify_integrity\<close> and accepts equal pairs. The
  dependent variable and the regressors are columns of the indexed frame.
\<close>

definition panel_index :: "enriched \<Rightarrow> panel_key" where
  "panel_index r = (Country r, Year r)"

definition panel_dependent :: "enriched list \<Rightarrow> (panel_key \<times> f64) list" where
  "panel_dependent df = map (\<lambda>r. (panel_index r, GDP_per_capita r)) df"

definition panel_exog :: "enriched list \<Rightarrow> (panel_key \<times> f64 list) list" where
  "panel_exog df =
     map (\<lambda>r. (panel_index r,
                [Agriculture_Share r, Manufacturing_Share r, Transport_Comm_Share r])) df"

definition perform_panel_analysis ::
    "('m, 'p) library \<Rightarrow> enriched list \<Rightarrow> world \<Rightarrow> error + world" where
  "perform_panel_analysis L df w =
     (let w1 = print (CHR 0x0A # ''--- Fixed-Effects Panel Data Analysis Summary ---'') w
      in case PanelOLS_fit L (panel_dependent df) (panel_exog df) True of
           Inl e \<Rightarrow> Inl e
         | Inr panel_results \<Rightarrow>
             (let w2 = print (PanelOLS_str L panel_results) w1;
                  w3 = write_file ''panel_regression_summary.txt''
                         (PanelOLS_str L panel_results) w2
              in Inr (print (CHR 0x0A # ''Panel regression summary saved to ''
                             @ [CHR 0x27] @ ''panel_regression_summary.txt'' @ [CHR 0x27] @ ''.'') w3)))"

section \<open>Charts and the menu\<close>

text \<open>
  A branch of \<open>visualize_data\<close> announces its chart, has the libraries draw it from
  the frame (and, for the facet chart, the selected countries) and save it under a
  fixed name, and reports the file.
\<close>

definition quoted :: "string \<Rightarrow> string" where
  "quoted s = [CHR 0x27] @ s @ [CHR 0x27]"

definition draw_chart ::
    "('m, 'p) library \<Rightarrow> enriched list \<Rightarrow> string list \<Rightarrow> string \<Rightarrow> string \<Rightarrow> string
       \<Rightarrow> world \<Rightarrow> error + world" where
  "draw_chart L df selected announce name saved w =
     (case savefig L name df selected of
        Inl e \<Rightarrow> Inl e
      | Inr picture \<Rightarrow>
          Inr (print (saved @ '' saved to '' @ quoted name @ ''.'')
                 (write_file name picture (print announce w))))"

definition visualize_data ::
    "('m, 'p) library \<Rightarrow> enriched list \<Rightarrow> string \<Rightarrow> string list \<Rightarrow> world \<Rightarrow> error + world" where
  "visualize_data L df vis_choice selected w =
     (let w1 = print (CHR 0x0A # ''Generating Visualizations...'') w
      in if vis_choice = ''1'' then
           draw_chart L df selected ''Generating Bar Chart...''
             ''gdp_by_income_group_bar_chart.png'' ''Bar chart'' w1
         else if vis_choice = ''2'' then
           draw_chart L df selected (CHR 0x0A # ''Generating Line Plot...'')
             ''gdp_by_income_group_line_plot.png'' ''Line plot'' w1
         else if vis_choice = ''3'' then
           (if selected = [] then
              Inr (print ''No countries selected for the facet chart. Please select countries first.'' w1)
            else
              draw_chart L df selected (CHR 0x0A # ''Generating Facet Chart...'')
                ''gdp_comparative_facet_chart.png'' ''Facet chart'' w1)
         else if vis_choice = ''4'' then
           draw_chart L df selected (CHR 0x0A # ''Generating Scatter Plot...'')
             ''sectoral_impact_scatter_plots.png'' ''Scatter plots'' w1
         else if vis_choice = ''5'' then
           draw_chart L df selected (CHR 0x0A # ''Generating Box Plot...'')
             ''gdp_by_income_group_boxplot.png'' ''Box plot'' w1
         else Inr (print ''Invalid visualization choice.'' w1))"

definition menu :: "world \<Rightarrow> world" where
  "menu w =
     print ''Enter your choice (1, 2, 3, or 4): ''
       (print ''4. Exit''
          (print ''3. Perform Panel Data Analysis''
             (print ''2. Generate a Visualization''
                (print ''1. Perform Statistical Analysis (OLS Regression)''
                   (print (CHR 0x0A # ''What would you like to do?'') w)))))"

definition vis_prompt :: string where
  "vis_prompt = ''Which visualization? (1: Bar Plot, 2: Line Plot, 3: Facet Chart, 4: Scatter Plot, 5: Box Plot): ''"

text \<open>
  The \<open>while True\<close> loop of \<open>main\<close>. The lines the user will type are a list; each
  \<open>input\<close> takes the next one and raises \<open>EOFError\<close> when there is none, so every
  round consumes a line and the loop ends with the list at the latest.
\<close>

fun menu_loop ::
    "('m, 'p) library \<Rightarrow> enriched list \<Rightarrow> string list \<Rightarrow> string list \<Rightarrow> world \<Rightarrow> error + world" where
  "menu_loop L df selected [] w = Inl EOFError"
| "menu_loop L df selected (choice # stdin) w =
     (if choice = ''1'' then
        (case perform_regression L df (menu w) of
           Inl e \<Rightarrow> Inl e
         | Inr (model, w') \<Rightarrow> menu_loop L df selected stdin w')
      else if choice = ''2'' then
        (case stdin of
           [] \<Rightarrow> Inl EOFError
         | vis_choice # stdin' \<Rightarrow>
             (case visualize_data L df vis_choice selected (print vis_prompt (menu w)) of
                Inl e \<Rightarrow> Inl e
              | Inr w' \<Rightarrow> menu_loop L df selected stdin' w'))
      else if choice = ''3'' then
        (case perform_panel_analysis L df (menu w) of
           Inl e \<Rightarrow> Inl e
         | Inr w' \<Rightarrow> menu_loop L df selected stdin w')
      else if choice = ''4'' then Inr (print ''Exiting script.'' (menu w))
      else
        menu_loop L df selected stdin
          (print ''Invalid choice. Please enter 1, 2, 3, or 4.'' (menu w)))"

definition file_path :: string where
  "file_path = ''Global Economy Indicators.csv''"

definition main ::
    "('m, 'p) library \<Rightarrow> file_system \<Rightarrow> string list \<Rightarrow> world \<Rightarrow> error + world" where
  "main L fs stdin w =
     (case data_preparation fs file_path
             (print ''--- Interactive Data Analysis and Visualization ---'' w) of
        Inl e \<Rightarrow> Inl e
      | Inr (None, w1) \<Rightarrow> Inr w1
      | Inr (Some df_clean, w1) \<Rightarrow>
          (let df_engineered = feature_engineering df_clean;
               (selected, w2) = get_comparable_countries df_engineered w1
           in menu_loop L df_engineered selected stdin w2))"

section \<open>Example data\<close>

text \<open>Concrete rows and tables at which the statements below are evaluated.\<close>

definition empty_world :: world where
  "empty_world = \<lparr>stdout = [], files = Map.empty\<rparr>"

text \<open>
  An example library for the statements about least squares: \<open>add_constant\<close> puts
  the column of ones in front and the fit returns, the fitted model being the data it
  was fitted to. It is not a model of the panel estimator or of the charts: those
  calls raise here, and no statement below evaluates them.
\<close>

type_synonym ols_data = "f64 list \<times> f64 list list"

definition fitting_library :: "(ols_data, unit) library" where
  "fitting_library =
     \<lparr>add_constant = (\<lambda>X. Inr (map (\<lambda>row. Fin 1 # row) X)),
      OLS_fit = (\<lambda>y X. Inr (y, X)),
      OLS_summary = (\<lambda>model. ''OLS Regression Results''),
      PanelOLS_fit = (\<lambda>dependent exog entity_effects. Inl (LibraryError ''not modelled'')),
      PanelOLS_str = (\<lambda>panel_results. []),
      savefig = (\<lambda>name df selected. Inl (LibraryError ''not modelled''))\<rparr>"

text \<open>
  A country of twenty million people whose per-capita GNI moves from the low to the
  lower-middle band between two years.
\<close>

definition two_label_rows :: "observation list" where
  "two_label_rows =
     [\<lparr>Country = Some ''A'', Year = Fin 1990, Population = Fin 20000000, GDP = Fin 100,
       Per_capita_GNI = Fin 1000, Agriculture = Fin 10, Manufacturing = Fin 20,
       Transport_Comm = Fin 5\<rparr>,
      \<lparr>Country = Some ''A'', Year = Fin 2000, Population = Fin 20000000, GDP = Fin 200,
       Per_capita_GNI = Fin 2000, Agriculture = Fin 10, Manufacturing = Fin 50,
       Transport_Comm = Fin 8\<rparr>]"

text \<open>
  Four countries, the rows not in the order of the names: B (thirty million people,
  high income), AB (twenty million, high income), A (twenty million on average, low
  income, two years) and C (one million, high income).
\<close>

definition four_countries :: "observation list" where
  "four_countries =
     [\<lparr>Country = Some ''B'', Year = Fin 2000, Population = Fin 30000000, GDP = Fin 900,
       Per_capita_GNI = Fin 20000, Agriculture = Fin 9, Manufacturing = Fin 90,
       Transport_Comm = Fin 45\<rparr>,
      \<lparr>Country = Some ''AB'', Year = Fin 2000, Population = Fin 20000000, GDP = Fin 800,
       Per_capita_GNI = Fin 15000, Agriculture = Fin 8, Manufacturing = Fin 80,
       Transport_Comm = Fin 40\<rparr>,
      \<lparr>Country = Some ''A'', Year = Fin 2000, Population = Fin 10000000, GDP = Fin 100,
       Per_capita_GNI = Fin 500, Agriculture = Fin 40, Manufacturing = Fin 10,
       Transport_Comm = Fin 5\<rparr>,
      \<lparr>Country = Some ''C'', Year = Fin 2000, Population = Fin 1000000, GDP = Fin 50,
       Per_capita_GNI = Fin 30000, Agriculture = Fin 1, Manufacturing = Fin 5,
       Transport_Comm = Fin 5\<rparr>,
      \<lparr>Country = Some ''A'', Year = Fin 2001, Population = Fin 30000000, GDP = Fin 120,
       Per_capita_GNI = Fin 600, Agriculture = Fin 48, Manufacturing = Fin 12,
       Transport_Comm = Fin 6\<rparr>]"

text \<open>
  Six rows in which the manufacturing value is twice the agriculture value, so that the
  manufacturing share is twice the agriculture share in every row.
\<close>

definition collinear_rows :: "observation list" where
  "collinear_rows =
     [\<lparr>Country = Some ''A'', Year = Fin 2000, Population = Fin 10, GDP = Fin 100,
       Per_capita_GNI = Fin 500, Agriculture = Fin 10, Manufacturing = Fin 20,
       Transport_Comm = Fin 5\<rparr>,
      \<lparr>Country = Some ''A'', Year = Fin 2001, Population = Fin 10, GDP = Fin 200,
       Per_capita_GNI = Fin 600, Agriculture = Fin 30, Manufacturing = Fin 60,
       Transport_Comm = Fin 8\<rparr>,
      \<lparr>Country = Some ''B'', Year = Fin 2000, Population = Fin 20, GDP = Fin 400,
       Per_capita_GNI = Fin 5000, Agriculture = Fin 20, Manufacturing = Fin 40,
       Transport_Comm = Fin 48\<rparr>,
      \<lparr>Country = Some ''B'', Year = Fin 2001, Population = Fin 20, GDP = Fin 500,
       Per_capita_GNI = Fin 6000, Agriculture = Fin 100, Manufacturing = Fin 200,
       Transport_Comm = Fin 50\<rparr>,
      \<lparr>Country = Some ''C'', Year = Fin 2000, Population = Fin 40, GDP = Fin 1000,
       Per_capita_GNI = Fin 20000, Agriculture = Fin 10, Manufacturing = Fin 20,
       Transport_Comm = Fin 300\<rparr>,
      \<lparr>Country = Some ''C'', Year = Fin 2001, Population = Fin 40, GDP = Fin 2000,
       Per_capita_GNI = Fin 30000, Agriculture = Fin 100, Manufacturing = Fin 200,
       Transport_Comm = Fin 500\<rparr>]"


definition zero_gdp_row :: observation where
  "zero_gdp_row =
     \<lparr>Country = Some ''A'', Year = Fin 2000, Population = Fin 1000, GDP = Fin 0,
      Per_capita_GNI = Fin 500, Agriculture = Fin 5, Manufacturing = Fin 0,
      Transport_Comm = Fin 3\<rparr>"

definition complete_row :: observation where
  "complete_row =
     \<lparr>Country = Some ''A'', Year = Fin 2000, Population = Fin 1000, GDP = Fin 50,
      Per_capita_GNI = Fin 500, Agriculture = Fin 5, Manufacturing = Fin 0,
      Transport_Comm = Fin 3\<rparr>"

definition sample_header :: "string list" where
  "sample_header =
     ['' Country '', '' Year '', '' Population '', '' Gross Domestic Product (GDP) '',
      '' Per capita GNI '', '' Agriculture, hunting, forestry, fishing (ISIC A-B) '',
      '' Manufacturing (ISIC D) '', '' Transport, storage and communication (ISIC I) '',
      '' Currency '']"

definition sample_table :: raw_frame where
  "sample_table =
     \<lparr>columns = sample_header,
      rows = [complete_row, complete_row\<lparr>GDP := NaN\<rparr>, complete_row\<lparr>Country := None\<rparr>,
              complete_row\<lparr>Year := Fin 2001\<rparr>]\<rparr>"

section \<open>Properties of the selection\<close>

subsection \<open>Dropping duplicates\<close>


lemma drop_duplicates_set: "set (drop_duplicates xs) = set xs"
  by (induction xs rule: drop_duplicates.induct) auto

lemma drop_duplicates_distinct: "distinct (drop_duplicates xs)"
  by (induction xs rule: drop_duplicates.induct) (auto simp: drop_duplicates_set)

lemma filter_neq_absent: "a \<notin> set xs \<Longrightarrow> filter (\<lambda>y. y \<noteq> a) xs = xs"
  by (induction xs) auto

lemma drop_duplicates_id: "distinct xs \<Longrightarrow> drop_duplicates xs = xs"
  by (induction xs) (auto simp: filter_neq_absent)

lemma drop_duplicates_filter: "filter P (drop_duplicates xs) = drop_duplicates (filter P xs)"
proof (induction xs rule: drop_duplicates.induct)
  case 1
  show ?case by simp
next
  case (2 x xs)
  have swap: "filter P (filter (\<lambda>y. y \<noteq> x) xs) = filter (\<lambda>y. y \<noteq> x) (filter P xs)"
    by (induction xs) auto
  show ?case
  proof (cases "P x")
    case True
    then show ?thesis using 2 swap by simp
  next
    case False
    then have "filter (\<lambda>y. y \<noteq> x) (filter P xs) = filter P xs"
      by (intro filter_neq_absent) auto
    then show ?thesis using False 2 swap by simp
  qed
qed

lemma drop_duplicates_map:
  "inj_on f (set xs) \<Longrightarrow> drop_duplicates (map f xs) = map f (drop_duplicates xs)"
proof (induction xs rule: drop_duplicates.induct)
  case 1
  show ?case by simp
next
  case (2 x xs)
  have "filter (\<lambda>y. y \<noteq> f x) (map f xs) = map f (filter (\<lambda>y. y \<noteq> x) xs)"
    using 2(2) by (auto simp: filter_map comp_def inj_on_def intro!: arg_cong [where f = "map f"] filter_cong)
  moreover have "inj_on f (set (filter (\<lambda>y. y \<noteq> x) xs))"
    using 2(2) by (auto simp: inj_on_def)
  ultimately show ?case using 2(1) by simp
qed

lemma drop_duplicates_hd: "xs \<noteq> [] \<Longrightarrow> hd (drop_duplicates xs) = hd xs"
  by (cases xs) auto

lemma drop_duplicates_Nil: "drop_duplicates xs = [] \<longleftrightarrow> xs = []"
  by (cases xs) auto

subsection \<open>The grouped table and the merge\<close>

lemma country_keys_set: "set (country_keys df) = {c. \<exists>r \<in> set df. Country r = Some c}"
  by (auto simp: country_keys_def List.map_filter_def image_iff) (metis option.sel)

lemma country_keys_sorted: "sorted (country_keys df)"
  by (simp add: country_keys_def)

lemma country_keys_distinct: "distinct (country_keys df)"
  by (simp add: country_keys_def)

lemma avg_population_keys:
  "avg_population df = map (\<lambda>c. (c, mean_population df c)) (country_keys df)"
  by (simp add: avg_population_def mean_population_def country_keys_def)

lemma population_filtered_keys:
  "population_filtered df =
     map (\<lambda>c. (c, mean_population df c)) (filter (\<lambda>c. in_band (mean_population df c)) (country_keys df))"
  by (simp add: population_filtered_def avg_population_keys filter_map comp_def in_band_def)

lemma retained_keys:
  "retained df = filter (\<lambda>c. in_band (mean_population df c)) (country_keys df)"
  by (simp add: retained_def population_filtered_keys comp_def)

lemma retained_sorted: "sorted (retained df)"
  by (simp add: retained_keys country_keys_sorted sorted_wrt_filter)

lemma retained_distinct: "distinct (retained df)"
  by (simp add: retained_keys country_keys_distinct)

lemma retained_has_row: "c \<in> set (retained df) \<Longrightarrow> labels_in_rows df c \<noteq> []"
  by (auto simp: retained_keys country_keys_set labels_in_rows_def filter_empty_conv)

lemma income_map_of_country:
  "filter (\<lambda>(c', g). c' = Some c) (country_income_map df)
     = map (Pair (Some c)) (drop_duplicates (labels_in_rows df c))"
proof -
  have "filter (\<lambda>(c', g). c' = Some c) (map (\<lambda>r. (Country r, Income_Group r)) df)
          = map (Pair (Some c)) (labels_in_rows df c)"
    by (induction df) (auto simp: labels_in_rows_def)
  moreover have "inj_on (Pair (Some c)) A" for A :: "string set"
    by (simp add: inj_on_def)
  ultimately show ?thesis
    by (simp add: country_income_map_def drop_duplicates_filter drop_duplicates_map)
qed

lemma case_map_Pair:
  "xs \<noteq> [] \<Longrightarrow>
     (case map (Pair a) xs of [] \<Rightarrow> d | ms \<Rightarrow> map (\<lambda>(c', g). h g) ms) = map h xs"
  by (cases xs) simp_all

lemma filter_eq_distinct:
  "distinct xs \<Longrightarrow> filter (\<lambda>l. l = g) xs = (if g \<in> set xs then [g] else [])"
  by (induction xs) auto

lemma merged_blocks:
  "comparable_countries_df df = concat (map (block df) (population_filtered df))"
proof -
  have "(case filter (\<lambda>(c', g). c' = Some c) (country_income_map df) of
           [] \<Rightarrow> [(c, p, None)]
         | ms \<Rightarrow> map (\<lambda>(c', g). (c, p, Some g)) ms) = block df (c, p)"
    if "(c, p) \<in> set (population_filtered df)" for c p
  proof -
    from that have "c \<in> set (retained df)" by (force simp: retained_def)
    then have "drop_duplicates (labels_in_rows df c) \<noteq> []"
      by (simp add: drop_duplicates_Nil retained_has_row)
    then show ?thesis
      by (simp add: income_map_of_country block_def case_map_Pair)
  qed
  then show ?thesis
    unfolding comparable_countries_df_def merge_left_def
    by (intro arg_cong [where f = concat] map_cong) auto
qed

lemma group_countries_retained:
  "group_countries (comparable_countries_df df) g
     = filter (\<lambda>c. g \<in> set (labels_in_rows df c)) (retained df)"
proof -
  have one: "map fst (filter (\<lambda>(c, p, ig). ig = Some g) (block df cp))
               = (if g \<in> set (labels_in_rows df (fst cp)) then [fst cp] else [])" for cp
  proof -
    obtain c p where cp: "cp = (c, p)" by (cases cp)
    have "filter (\<lambda>l. l = g) (drop_duplicates (labels_in_rows df c))
            = (if g \<in> set (labels_in_rows df c) then [g] else [])"
      by (simp add: filter_eq_distinct drop_duplicates_distinct drop_duplicates_set)
    then show ?thesis
      by (simp add: cp block_def filter_map comp_def)
  qed
  have "map fst (filter (\<lambda>(c, p, ig). ig = Some g) (concat (map (block df) xs)))
          = filter (\<lambda>c. g \<in> set (labels_in_rows df c)) (map fst xs)" for xs
    by (induction xs) (simp_all add: one)
  then show ?thesis
    by (simp add: group_countries_def merged_blocks retained_def [symmetric]
        drop_duplicates_id retained_distinct)
qed

section \<open>Income classification\<close>

text \<open>
  Claim C3. For every real per-capita GNI, \<open>classify_income_group\<close> answers Low income
  up to and including 1145, Lower middle income above 1145 up to and including 4515,
  Upper middle income above 4515 up to and including 14005, and High income above
  14005: each boundary value belongs to the lower band.
\<close>

theorem classify_income_group_bands:
  "(g \<le> 1145 \<longrightarrow> classify_income_group (Fin g) = ''Low income'')
   \<and> (1145 < g \<and> g \<le> 4515 \<longrightarrow> classify_income_group (Fin g) = ''Lower middle income'')
   \<and> (4515 < g \<and> g \<le> 14005 \<longrightarrow> classify_income_group (Fin g) = ''Upper middle income'')
   \<and> (14005 < g \<longrightarrow> classify_income_group (Fin g) = ''High income'')"
  by (simp add: classify_income_group_def)

text \<open>The six boundary cases: 1145, 1145.01, 4515, 4515.01, 14005 and 14005.01.\<close>

theorem classify_income_group_bands_witness:
  "classify_income_group (Fin 1145) = ''Low income''
   \<and> classify_income_group (Fin 1145.01) = ''Lower middle income''
   \<and> classify_income_group (Fin 4515) = ''Lower middle income''
   \<and> classify_income_group (Fin 4515.01) = ''Upper middle income''
   \<and> classify_income_group (Fin 14005) = ''Upper middle income''
   \<and> classify_income_group (Fin 14005.01) = ''High income''"
  using classify_income_group_bands [of 1145] classify_income_group_bands [of "1145.01"]
    classify_income_group_bands [of 4515] classify_income_group_bands [of "4515.01"]
    classify_income_group_bands [of 14005] classify_income_group_bands [of "14005.01"]
  by simp

section \<open>Feature engineering\<close>

lemmas enrich_simps = enrich_row_def observation.extend_def enriched.fields_def

lemma share_not_finite:
  "g = Fin 0 \<or> g = NaN \<Longrightarrow> \<not> is_finite (f64_mul (f64_div a g) (Fin 100))"
  by (cases a) (auto split: if_splits)

text \<open>
  Claim C2 says that a row whose GDP is zero makes the ratio derivation raise a
  DataError. It does not: for the row \<open>zero_gdp_row\<close>, whose GDP is 0,
  \<open>feature_engineering\<close> returns the frame, and the shares of the row are infinite
  (NaN where the sector value is 0 as well).
\<close>

theorem zero_gdp_gives_infinite_share:
  "feature_engineering [zero_gdp_row] =
     [\<lparr>Country = Some ''A'', Year = Fin 2000, Population = Fin 1000, GDP = Fin 0,
       Per_capita_GNI = Fin 500, Agriculture = Fin 5, Manufacturing = Fin 0,
       Transport_Comm = Fin 3, Income_Group = ''Low income'', GDP_per_capita = Fin 0,
       Agriculture_Share = PInf, Manufacturing_Share = NaN, Transport_Comm_Share = PInf\<rparr>]"
  by (simp add: feature_engineering_def enrich_simps zero_gdp_row_def classify_income_group_def)

text \<open>
  Claim C2, as the code has it. For every row of the frame whose GDP is zero or
  missing, \<open>feature_engineering\<close> raises nothing: it returns a frame of the same
  length in which the three shares of that row are not finite numbers (an infinity or
  NaN).
\<close>

theorem zero_gdp_shares_not_finite:
  assumes "i < length df" and "GDP (df ! i) = Fin 0 \<or> GDP (df ! i) = NaN"
  shows "length (feature_engineering df) = length df
    \<and> \<not> is_finite (Agriculture_Share (feature_engineering df ! i))
    \<and> \<not> is_finite (Manufacturing_Share (feature_engineering df ! i))
    \<and> \<not> is_finite (Transport_Comm_Share (feature_engineering df ! i))"
  using assms by (simp add: feature_engineering_def enrich_simps share_not_finite)

theorem zero_gdp_shares_not_finite_witness:
  "0 < length [zero_gdp_row] \<and> GDP ([zero_gdp_row] ! 0) = Fin 0
   \<and> \<not> is_finite (Agriculture_Share (feature_engineering [zero_gdp_row] ! 0))
   \<and> \<not> is_finite (Manufacturing_Share (feature_engineering [zero_gdp_row] ! 0))
   \<and> \<not> is_finite (Transport_Comm_Share (feature_engineering [zero_gdp_row] ! 0))"
  using zero_gdp_shares_not_finite [of 0 "[zero_gdp_row]"]
  by (simp add: zero_gdp_row_def)

text \<open>
  Claim C10. \<open>feature_engineering\<close> keeps the number of rows, their order and the
  eight raw columns (cutting the five new columns off gives the frame back), the five
  new columns hold the income group, GDP per capita and the three shares of the row,
  and what a row gets depends on that row alone: equal rows, in whatever frames and
  places, get equal results.
\<close>

theorem feature_engineering_frame:
  "length (feature_engineering df) = length df
   \<and> map observation.truncate (feature_engineering df) = df
   \<and> (\<forall>i < length df.
        Income_Group (feature_engineering df ! i) = classify_income_group (Per_capita_GNI (df ! i))
        \<and> GDP_per_capita (feature_engineering df ! i) = f64_div (GDP (df ! i)) (Population (df ! i))
        \<and> Agriculture_Share (feature_engineering df ! i)
            = f64_mul (f64_div (Agriculture (df ! i)) (GDP (df ! i))) (Fin 100)
        \<and> Manufacturing_Share (feature_engineering df ! i)
            = f64_mul (f64_div (Manufacturing (df ! i)) (GDP (df ! i))) (Fin 100)
        \<and> Transport_Comm_Share (feature_engineering df ! i)
            = f64_mul (f64_div (Transport_Comm (df ! i)) (GDP (df ! i))) (Fin 100))
   \<and> (\<forall>df' i j. i < length df \<and> j < length df' \<and> df ! i = df' ! j
        \<longrightarrow> feature_engineering df ! i = feature_engineering df' ! j)"
proof -
  have "observation.truncate (enrich_row r) = r" for r
    by (simp add: enrich_simps observation.truncate_def)
  then have "map observation.truncate (feature_engineering df) = df"
    by (simp add: feature_engineering_def comp_def)
  then show ?thesis
    by (simp add: feature_engineering_def enrich_simps)
qed

theorem feature_engineering_frame_witness:
  "map observation.truncate (feature_engineering [complete_row, zero_gdp_row])
     = [complete_row, zero_gdp_row]
   \<and> Income_Group (feature_engineering [complete_row, zero_gdp_row] ! 0) = ''Low income''
   \<and> GDP_per_capita (feature_engineering [complete_row, zero_gdp_row] ! 0) = Fin (1 / 20)
   \<and> Agriculture_Share (feature_engineering [complete_row, zero_gdp_row] ! 0) = Fin 10
   \<and> Manufacturing_Share (feature_engineering [complete_row, zero_gdp_row] ! 0) = Fin 0
   \<and> Transport_Comm_Share (feature_engineering [complete_row, zero_gdp_row] ! 0) = Fin 6
   \<and> feature_engineering [complete_row, zero_gdp_row] ! 0
       = feature_engineering [zero_gdp_row, complete_row] ! 1"
proof -
  note fact = feature_engineering_frame [of "[complete_row, zero_gdp_row]"]
  have row: "\<forall>i < length [complete_row, zero_gdp_row].
        Income_Group (feature_engineering [complete_row, zero_gdp_row] ! i)
          = classify_income_group (Per_capita_GNI ([complete_row, zero_gdp_row] ! i))
        \<and> GDP_per_capita (feature_engineering [complete_row, zero_gdp_row] ! i)
          = f64_div (GDP ([complete_row, zero_gdp_row] ! i)) (Population ([complete_row, zero_gdp_row] ! i))
        \<and> Agriculture_Share (feature_engineering [complete_row, zero_gdp_row] ! i)
          = f64_mul (f64_div (Agriculture ([complete_row, zero_gdp_row] ! i))
                       (GDP ([complete_row, zero_gdp_row] ! i))) (Fin 100)
        \<and> Manufacturing_Share (feature_engineering [complete_row, zero_gdp_row] ! i)
          = f64_mul (f64_div (Manufacturing ([complete_row, zero_gdp_row] ! i))
                       (GDP ([complete_row, zero_gdp_row] ! i))) (Fin 100)
        \<and> Transport_Comm_Share (feature_engineering [complete_row, zero_gdp_row] ! i)
          = f64_mul (f64_div (Transport_Comm ([complete_row, zero_gdp_row] ! i))
                       (GDP ([complete_row, zero_gdp_row] ! i))) (Fin 100)"
    using fact by blast
  have dep: "\<forall>df' i j. i < length [complete_row, zero_gdp_row] \<and> j < length df'
        \<and> [complete_row, zero_gdp_row] ! i = df' ! j
        \<longrightarrow> feature_engineering [complete_row, zero_gdp_row] ! i = feature_engineering df' ! j"
    using fact by blast
  have "feature_engineering [complete_row, zero_gdp_row] ! 0
          = feature_engineering [zero_gdp_row, complete_row] ! 1"
    using dep [rule_format, of 0 1 "[zero_gdp_row, complete_row]"] by simp
  moreover have "map observation.truncate (feature_engineering [complete_row, zero_gdp_row])
     = [complete_row, zero_gdp_row]"
    using fact by blast
  ultimately show ?thesis
    using row [rule_format, of 0]
    by (simp add: complete_row_def classify_income_group_def)
qed

section \<open>Loading\<close>

text \<open>
  Claim C9. For every table that has the eight columns, \<open>data_preparation\<close> returns the
  rows of the table that miss none of the eight entries, in their order: no returned
  row has a missing entry, every row with a missing entry is dropped, and every row
  with all eight entries is kept.
\<close>

theorem data_preparation_drops_incomplete_rows:
  assumes "fs path = Some table"
    and "set columns_to_keep \<subseteq> set (map strip (columns table))"
  shows "\<exists>df. data_preparation fs path w = Inr (Some df, w)
    \<and> df = filter (\<lambda>r. \<not> has_missing r) (rows table)
    \<and> (\<forall>r \<in> set df. Country r \<noteq> None \<and> \<not> isna (Year r) \<and> \<not> isna (Population r)
          \<and> \<not> isna (GDP r) \<and> \<not> isna (Per_capita_GNI r) \<and> \<not> isna (Agriculture r)
          \<and> \<not> isna (Manufacturing r) \<and> \<not> isna (Transport_Comm r))
    \<and> (\<forall>r \<in> set (rows table). has_missing r \<longrightarrow> r \<notin> set df)
    \<and> (\<forall>r \<in> set (rows table). \<not> has_missing r \<longrightarrow> r \<in> set df)"
proof -
  have "filter (\<lambda>c. c \<notin> set (map strip (columns table))) columns_to_keep = []"
    using assms(2) by (auto simp: filter_empty_conv)
  then have "data_preparation fs path w = Inr (Some (dropna (rows table)), w)"
    using assms(1) by (simp add: data_preparation_def)
  then show ?thesis
    by (auto simp: dropna_def has_missing_def)
qed

lemma strip_sample_header: "map strip sample_header = columns_to_keep @ [''Currency'']"
  by (simp add: sample_header_def strip_def is_space_def columns_to_keep_def)

text \<open>
  A table of four rows, of which the second misses its GDP and the third its country:
  the first and the fourth are returned.
\<close>

theorem data_preparation_drops_incomplete_rows_witness:
  "data_preparation [''x.csv'' \<mapsto> sample_table] ''x.csv'' empty_world
     = Inr (Some [complete_row, complete_row\<lparr>Year := Fin 2001\<rparr>], empty_world)"
proof -
  have "set columns_to_keep \<subseteq> set (map strip (columns sample_table))"
    by (auto simp: sample_table_def strip_sample_header)
  from data_preparation_drops_incomplete_rows
         [OF _ this, of "[''x.csv'' \<mapsto> sample_table]" "''x.csv''" empty_world]
  show ?thesis
    by (simp add: sample_table_def has_missing_def complete_row_def)
qed

text \<open>
  Claim C8. For every path that does not resolve to a file, \<open>data_preparation\<close>
  reports it by its message and answers \<open>None\<close>; and when the path of the program does
  not resolve, \<open>main\<close> ends there, whatever the libraries and whatever the user
  would type: it has printed its banner and the message and nothing else (so neither
  the selection nor an analysis has run), and it has written no file.
\<close>

theorem missing_file_stops_pipeline:
  "(fs path = None \<longrightarrow>
      data_preparation fs path w = Inr (None, print (not_found_message path) w))
   \<and> (fs file_path = None \<longrightarrow>
      (\<exists>w'. main L fs stdin w = Inr w'
         \<and> stdout w' = stdout w @ [''--- Interactive Data Analysis and Visualization ---'',
                                    not_found_message file_path]
         \<and> files w' = files w))"
  by (simp add: data_preparation_def main_def print_def)

theorem missing_file_stops_pipeline_witness:
  "data_preparation Map.empty ''nowhere.csv'' empty_world
     = Inr (None, \<lparr>stdout = [not_found_message ''nowhere.csv''], files = Map.empty\<rparr>)
   \<and> main fitting_library Map.empty [''1'', ''3'', ''4''] empty_world
     = Inr \<lparr>stdout = [''--- Interactive Data Analysis and Visualization ---'',
                       not_found_message file_path], files = Map.empty\<rparr>"
  using missing_file_stops_pipeline
          [of Map.empty "''nowhere.csv''" empty_world fitting_library "[''1'', ''3'', ''4'']"]
  by (auto simp: print_def empty_world_def)

section \<open>The selection of comparable countries\<close>

lemmas selector_simps = selected_countries_def comparable_countries_df_def merge_left_def
  population_filtered_def avg_population_def List.map_filter_def f64_mean_def f64_sum_def
  country_income_map_def groups_def group_countries_def min_population_def max_population_def
  f64_ge_def

lemmas engineering_simps = feature_engineering_def enrich_simps classify_income_group_def


lemma filter_blocks:
  "filter (\<lambda>(c', p, g). c' = c) (concat (map (block df) xs))
     = concat (map (block df) (filter (\<lambda>(c', p). c' = c) xs))"
  by (induction xs) (auto simp: block_def filter_map comp_def)

lemma population_filtered_of_country:
  assumes "c \<in> set (retained df)"
  shows "filter (\<lambda>(c', p). c' = c) (population_filtered df) = [(c, mean_population df c)]"
proof -
  have "population_filtered df = map (\<lambda>c. (c, mean_population df c)) (retained df)"
    by (simp add: population_filtered_keys retained_keys)
  then show ?thesis
    using assms by (simp add: filter_map comp_def filter_eq_distinct retained_distinct)
qed

lemma assigned_labels_retained:
  assumes "c \<in> set (retained df)"
  shows "assigned_labels df c = map Some (drop_duplicates (labels_in_rows df c))"
proof -
  have "filter (\<lambda>(c', p, g). c' = c) (comparable_countries_df df)
          = block df (c, mean_population df c)"
    using assms by (simp add: merged_blocks filter_blocks population_filtered_of_country)
  then show ?thesis
    by (simp add: assigned_labels_def block_def comp_def)
qed

lemma drop_duplicates_single:
  "xs \<noteq> [] \<Longrightarrow> drop_duplicates xs = [hd xs] \<longleftrightarrow> (\<forall>l \<in> set xs. l = hd xs)"
  by (cases xs) (auto simp: drop_duplicates_Nil filter_empty_conv)

text \<open>
  Claim C4, as the code has it. \<open>drop_duplicates\<close> is applied to the pairs of country
  and income group, so the merged frame holds, for every country the population
  filter retains, one row for each different label the country carries: the labels
  assigned to the country are its different labels in the order of their first rows.
  The first of them is the first label in row order, and the country is assigned
  exactly one label exactly when all its rows carry the same label.
\<close>

theorem retained_country_labels:
  assumes "c \<in> set (retained df)"
  shows "labels_in_rows df c \<noteq> []
    \<and> assigned_labels df c = map Some (drop_duplicates (labels_in_rows df c))
    \<and> hd (assigned_labels df c) = Some (hd (labels_in_rows df c))
    \<and> (assigned_labels df c = [Some (hd (labels_in_rows df c))]
         \<longleftrightarrow> (\<forall>l \<in> set (labels_in_rows df c). l = hd (labels_in_rows df c)))"
proof -
  let ?ls = "labels_in_rows df c"
  have ne: "?ls \<noteq> []" using assms by (rule retained_has_row)
  have eq: "assigned_labels df c = map Some (drop_duplicates ?ls)"
    using assms by (rule assigned_labels_retained)
  have "hd (assigned_labels df c) = Some (hd ?ls)"
    using ne by (simp add: eq hd_map drop_duplicates_Nil drop_duplicates_hd)
  moreover have "assigned_labels df c = [Some (hd ?ls)] \<longleftrightarrow> drop_duplicates ?ls = [hd ?ls]"
    unfolding eq by (auto simp: map_eq_Cons_conv)
  ultimately show ?thesis
    using ne eq by (simp add: drop_duplicates_single)
qed

text \<open>
  Claim C4 says that a retained country is assigned exactly one label, the first in row
  order. The country A of \<open>two_label_rows\<close> is retained, carries the labels Low income
  and then Lower middle income, and is assigned both.
\<close>

theorem two_labels_assigned:
  "''A'' \<in> set (retained (feature_engineering two_label_rows))
   \<and> labels_in_rows (feature_engineering two_label_rows) ''A''
       = [''Low income'', ''Lower middle income'']
   \<and> assigned_labels (feature_engineering two_label_rows) ''A''
       = [Some ''Low income'', Some ''Lower middle income'']"
  by (simp add: retained_def assigned_labels_def labels_in_rows_def two_label_rows_def
      selector_simps engineering_simps)

text \<open>The country A of \<open>four_countries\<close> carries one label in both its rows.\<close>

theorem retained_country_labels_witness:
  "''A'' \<in> set (retained (feature_engineering four_countries))
   \<and> labels_in_rows (feature_engineering four_countries) ''A'' = [''Low income'', ''Low income'']
   \<and> assigned_labels (feature_engineering four_countries) ''A'' = [Some ''Low income'']"
proof -
  have r: "''A'' \<in> set (retained (feature_engineering four_countries))"
    by (simp add: retained_def four_countries_def selector_simps engineering_simps)
  have l: "labels_in_rows (feature_engineering four_countries) ''A'' = [''Low income'', ''Low income'']"
    by (simp add: labels_in_rows_def four_countries_def engineering_simps)
  show ?thesis
    using retained_country_labels [OF r] r l by simp
qed


lemma selected_countries_parts:
  "selected_countries df
     = group_part df ''High income'' @ group_part df ''Upper middle income''
       @ group_part df ''Lower middle income'' @ group_part df ''Low income''"
  by (simp add: selected_countries_def groups_def group_countries_retained Let_def group_part_def)

lemma group_part_subset: "set (group_part df g) \<subseteq> set (retained df)"
  unfolding group_part_def using set_take_subset [of 3] by fastforce

lemma group_part_label: "c \<in> set (group_part df g) \<Longrightarrow> g \<in> set (labels_in_rows df c)"
  unfolding group_part_def using set_take_subset [of 3] by fastforce

lemma group_part_distinct: "distinct (group_part df g)"
  by (simp add: group_part_def retained_distinct)

lemma group_part_length: "length (group_part df g) \<le> 3"
  by (simp add: group_part_def)

lemma group_part_sorted: "sorted (group_part df g)"
  by (simp add: group_part_def retained_sorted sorted_wrt_filter sorted_wrt_take)

lemma retained_set:
  "set (retained df) = {c. (\<exists>r \<in> set df. Country r = Some c)
     \<and> f64_le (Fin 10000000) (mean_population df c) \<and> f64_le (mean_population df c) (Fin 50000000)}"
  by (auto simp: retained_keys country_keys_set in_band_def f64_ge_def min_population_def
      max_population_def)

lemma group_part_disjoint:
  assumes "\<forall>c \<in> set (retained df). \<forall>l \<in> set (labels_in_rows df c). l = hd (labels_in_rows df c)"
    and "g \<noteq> g'"
  shows "set (group_part df g) \<inter> set (group_part df g') = {}"
proof -
  have False if "c \<in> set (group_part df g)" and "c \<in> set (group_part df g')" for c
  proof -
    from that(1) have "c \<in> set (retained df)" using group_part_subset by blast
    with assms(1) group_part_label [OF that(1)] group_part_label [OF that(2)]
    have "g = hd (labels_in_rows df c)" and "g' = hd (labels_in_rows df c)" by blast+
    with assms(2) show False by simp
  qed
  then show ?thesis by blast
qed

text \<open>
  Claim C5, as the code has it. The selection is the concatenation, in the order High,
  Upper middle, Lower middle, Low income, of what each group contributes: the first
  three at most of the retained countries that carry the label of the group in some
  row, in the order of the grouped table, which is ascending and without repetition;
  so a group contributes at most three countries and none of them twice. The
  retained countries are those of the frame whose mean population lies in the closed
  band from 10,000,000 to 50,000,000, so every selected country has its mean
  population in the band; the selection has at most 12 entries; and no country is
  selected twice when every retained country carries one label in all its rows.
\<close>

theorem selected_countries_structure:
  "selected_countries df
     = concat (map (\<lambda>g. take 3 (filter (\<lambda>c. g \<in> set (labels_in_rows df c)) (retained df)))
         [''High income'', ''Upper middle income'', ''Lower middle income'', ''Low income''])
   \<and> (\<forall>g. length (take 3 (filter (\<lambda>c. g \<in> set (labels_in_rows df c)) (retained df))) \<le> 3
        \<and> distinct (take 3 (filter (\<lambda>c. g \<in> set (labels_in_rows df c)) (retained df))))
   \<and> sorted (retained df) \<and> distinct (retained df)
   \<and> set (retained df) = {c. (\<exists>r \<in> set df. Country r = Some c)
        \<and> f64_le (Fin 10000000) (mean_population df c)
        \<and> f64_le (mean_population df c) (Fin 50000000)}
   \<and> (\<forall>c \<in> set (selected_countries df).
        f64_le (Fin 10000000) (mean_population df c) \<and> f64_le (mean_population df c) (Fin 50000000))
   \<and> length (selected_countries df) \<le> 12
   \<and> ((\<forall>c \<in> set (retained df). \<forall>l \<in> set (labels_in_rows df c). l = hd (labels_in_rows df c))
        \<longrightarrow> distinct (selected_countries df))"
proof -
  have parts: "\<forall>g. length (take 3 (filter (\<lambda>c. g \<in> set (labels_in_rows df c)) (retained df))) \<le> 3
        \<and> distinct (take 3 (filter (\<lambda>c. g \<in> set (labels_in_rows df c)) (retained df)))"
    using group_part_length [of df] group_part_distinct [of df] by (simp add: group_part_def)
  have shape: "selected_countries df
     = concat (map (\<lambda>g. take 3 (filter (\<lambda>c. g \<in> set (labels_in_rows df c)) (retained df)))
         [''High income'', ''Upper middle income'', ''Lower middle income'', ''Low income''])"
    by (simp add: selected_countries_parts group_part_def)
  have sub: "set (selected_countries df) \<subseteq> set (retained df)"
    using group_part_subset [of df] by (auto simp: selected_countries_parts)
  then have band: "\<forall>c \<in> set (selected_countries df).
        f64_le (Fin 10000000) (mean_population df c) \<and> f64_le (mean_population df c) (Fin 50000000)"
    by (auto simp: retained_set)
  have len: "length (selected_countries df) \<le> 12"
    using group_part_length [of df "''High income''"] group_part_length [of df "''Upper middle income''"]
      group_part_length [of df "''Lower middle income''"] group_part_length [of df "''Low income''"]
    by (simp add: selected_countries_parts)
  have dist: "distinct (selected_countries df)"
    if single: "\<forall>c \<in> set (retained df). \<forall>l \<in> set (labels_in_rows df c). l = hd (labels_in_rows df c)"
  proof -
    have "set (group_part df g) \<inter> set (group_part df g') = {}" if "g \<noteq> g'" for g g'
      using single that by (rule group_part_disjoint)
    then show ?thesis
      by (simp add: selected_countries_parts group_part_distinct Int_Un_distrib)
  qed
  show ?thesis
    using shape parts band len dist retained_set [of df] retained_sorted [of df]
      retained_distinct [of df]
    by blast
qed

text \<open>
  Claim C5 says that no country appears twice in the selection. The country A of
  \<open>two_label_rows\<close> is selected in the group Lower middle income and again in the
  group Low income.
\<close>

theorem selected_country_twice:
  "selected_countries (feature_engineering two_label_rows) = [''A'', ''A'']"
  by (simp add: two_label_rows_def selector_simps engineering_simps)


text \<open>
  In \<open>four_countries\<close> the group High income contributes AB and B, in the order of
  the names and not of the rows; C is outside the band.
\<close>

theorem selected_countries_structure_witness:
  "retained (feature_engineering four_countries) = [''A'', ''AB'', ''B'']
   \<and> selected_countries (feature_engineering four_countries) = [''AB'', ''B'', ''A'']
   \<and> mean_population (feature_engineering four_countries) ''A'' = Fin 20000000
   \<and> mean_population (feature_engineering four_countries) ''AB'' = Fin 20000000
   \<and> mean_population (feature_engineering four_countries) ''B'' = Fin 30000000
   \<and> distinct (selected_countries (feature_engineering four_countries))
   \<and> length (selected_countries (feature_engineering four_countries)) \<le> 12"
proof -
  let ?df = "feature_engineering four_countries"
  have r: "retained ?df = [''A'', ''AB'', ''B'']"
    by (simp add: retained_def four_countries_def selector_simps engineering_simps)
  have single: "\<forall>c \<in> set (retained ?df). \<forall>l \<in> set (labels_in_rows ?df c). l = hd (labels_in_rows ?df c)"
    unfolding r by (simp add: labels_in_rows_def four_countries_def engineering_simps)
  have labels: "labels_in_rows ?df ''A'' = [''Low income'', ''Low income'']"
    "labels_in_rows ?df ''AB'' = [''High income'']" "labels_in_rows ?df ''B'' = [''High income'']"
    by (simp_all add: labels_in_rows_def four_countries_def engineering_simps)
  have m: "mean_population ?df ''A'' = Fin 20000000" "mean_population ?df ''AB'' = Fin 20000000"
    "mean_population ?df ''B'' = Fin 30000000"
    by (simp_all add: mean_population_def four_countries_def engineering_simps f64_mean_def
        f64_sum_def)
  note fact = selected_countries_structure [of ?df]
  from fact single have "distinct (selected_countries ?df)" by blast
  moreover from fact have "length (selected_countries ?df) \<le> 12" by blast
  moreover from fact have "selected_countries ?df
     = concat (map (\<lambda>g. take 3 (filter (\<lambda>c. g \<in> set (labels_in_rows ?df c)) (retained ?df)))
         [''High income'', ''Upper middle income'', ''Lower middle income'', ''Low income''])"
    by blast
  then have "selected_countries ?df = [''AB'', ''B'', ''A'']"
    by (simp add: r labels)
  ultimately show ?thesis using r m by simp
qed

section \<open>Properties of the regressions\<close>


text \<open>
  Claim C1 says that the fit of a dataset with a collinear regressor fails with a
  DegenerateDesignError and returns no estimates. In \<open>collinear_rows\<close> the second
  regressor is twice the first in every row; \<open>perform_regression\<close> passes the design
  to the library as it is, and with a library that fits what it is given it returns
  the fitted model.
\<close>

theorem collinear_design_is_fitted:
  "regression_X (feature_engineering collinear_rows)
     = [[Fin 10, Fin 20, Fin 5], [Fin 15, Fin 30, Fin 4], [Fin 5, Fin 10, Fin 12],
        [Fin 20, Fin 40, Fin 10], [Fin 1, Fin 2, Fin 30], [Fin 5, Fin 10, Fin 25]]
   \<and> map_sum id fst (perform_regression fitting_library (feature_engineering collinear_rows) empty_world)
     = Inr ([Fin 10, Fin 20, Fin 20, Fin 25, Fin 25, Fin 50],
            [[Fin 1, Fin 10, Fin 20, Fin 5], [Fin 1, Fin 15, Fin 30, Fin 4],
             [Fin 1, Fin 5, Fin 10, Fin 12], [Fin 1, Fin 20, Fin 40, Fin 10],
             [Fin 1, Fin 1, Fin 2, Fin 30], [Fin 1, Fin 5, Fin 10, Fin 25]])"
  by (simp add: perform_regression_def regression_X_def regression_y_def fitting_library_def
      collinear_rows_def engineering_simps)

text \<open>
  Claim C1, as the code has it. \<open>perform_regression\<close> makes no check of the design
  matrix, for no dataset, singular or not: whenever the library's \<open>add_constant\<close>
  and fit return for the regressors and the response of the dataset, it returns the
  model the library fitted and writes its summary to \<open>regression_summary.txt\<close>; and
  when it fails, the failure is the exception one of the two library calls raised.
\<close>

theorem perform_regression_has_no_design_check:
  "(\<forall>X' model. add_constant L (regression_X df) = Inr X' \<and> OLS_fit L (regression_y df) X' = Inr model
      \<longrightarrow> (\<exists>w'. perform_regression L df w = Inr (model, w')
             \<and> files w' ''regression_summary.txt'' = Some (OLS_summary L model)))
   \<and> (\<forall>e. perform_regression L df w = Inl e
      \<longrightarrow> add_constant L (regression_X df) = Inl e
          \<or> (\<exists>X'. add_constant L (regression_X df) = Inr X' \<and> OLS_fit L (regression_y df) X' = Inl e))"
  by (auto simp: perform_regression_def Let_def print_def write_file_def split: sum.splits)

theorem perform_regression_has_no_design_check_witness:
  "\<exists>w'. perform_regression fitting_library (feature_engineering collinear_rows) empty_world
     = Inr ((regression_y (feature_engineering collinear_rows),
             map (\<lambda>row. Fin 1 # row) (regression_X (feature_engineering collinear_rows))), w')
     \<and> files w' ''regression_summary.txt'' = Some ''OLS Regression Results''"
proof -
  let ?df = "feature_engineering collinear_rows"
  have a: "add_constant fitting_library (regression_X ?df) = Inr (map (\<lambda>row. Fin 1 # row) (regression_X ?df))"
    by (simp add: fitting_library_def)
  have f: "OLS_fit fitting_library (regression_y ?df) (map (\<lambda>row. Fin 1 # row) (regression_X ?df))
             = Inr (regression_y ?df, map (\<lambda>row. Fin 1 # row) (regression_X ?df))"
    by (simp add: fitting_library_def)
  have s: "OLS_summary fitting_library (regression_y ?df, map (\<lambda>row. Fin 1 # row) (regression_X ?df))
             = ''OLS Regression Results''"
    by (simp add: fitting_library_def)
  from perform_regression_has_no_design_check [of fitting_library ?df empty_world] a f
  have "\<exists>w'. perform_regression fitting_library ?df empty_world
     = Inr ((regression_y ?df, map (\<lambda>row. Fin 1 # row) (regression_X ?df)), w')
     \<and> files w' ''regression_summary.txt''
         = Some (OLS_summary fitting_library (regression_y ?df, map (\<lambda>row. Fin 1 # row) (regression_X ?df)))"
    by blast
  then show ?thesis unfolding s .
qed






end
